theory Spec2Isabelle
  imports Complex_Main
begin

section \<open>JavaScript values\<close>

text \<open>
  The page is dynamically typed, and two of its functions branch on the run-time type
  of what they are given (\<^verbatim>\<open>label ? ... : ''\<close>, \<^verbatim>\<open>typeof x === "number"\<close>,
  \<^verbatim>\<open>Array.isArray\<close>). The values they can meet are modelled by one datatype.

  \<^item> A number is a real: the arithmetic of \<^verbatim>\<open>determineBusinessAction\<close> is one
    subtraction and two comparisons, taken exactly. Rounding of binary floating point,
    \<^verbatim>\<open>NaN\<close> and the infinities are outside this model.
  \<^item> A string is a list of 8-bit characters. The three characters of the messages that
    are not ASCII are written as their UTF-8 bytes.
  \<^item> An object is the list of its own data properties; a property is looked up by the
    first entry with its name. Methods and prototypes are outside this model.
\<close>

datatype jsval =
    JUndefined
  | JNull
  | JBool bool
  | JNum real
  | JStr string
  | JArr "jsval list"
  | JObj "(string \<times> jsval) list"

datatype js_error = TypeError string

text \<open>The \<^verbatim>\<open>typeof\<close> operator (\<^verbatim>\<open>typeof null\<close> is \<^verbatim>\<open>"object"\<close>, and so is an array).\<close>

fun typeof :: "jsval \<Rightarrow> string" where
  "typeof JUndefined = ''undefined''"
| "typeof JNull = ''object''"
| "typeof (JBool b) = ''boolean''"
| "typeof (JNum x) = ''number''"
| "typeof (JStr s) = ''string''"
| "typeof (JArr xs) = ''object''"
| "typeof (JObj ps) = ''object''"

text \<open>
  Truthiness, as \<^verbatim>\<open>?:\<close> and \<^verbatim>\<open>&&\<close> test it: \<^verbatim>\<open>undefined\<close>, \<^verbatim>\<open>null\<close>,
  \<^verbatim>\<open>false\<close>, \<^verbatim>\<open>0\<close> and the empty string are falsy, everything else is truthy.
\<close>

fun truthy :: "jsval \<Rightarrow> bool" where
  "truthy JUndefined = False"
| "truthy JNull = False"
| "truthy (JBool b) = b"
| "truthy (JNum x) = (x \<noteq> 0)"
| "truthy (JStr s) = (s \<noteq> [])"
| "truthy (JArr xs) = True"
| "truthy (JObj ps) = True"

text \<open>
  Reading a named property \<^verbatim>\<open>v.k\<close> of a value that is neither \<^verbatim>\<open>null\<close> nor
  \<^verbatim>\<open>undefined\<close>: an absent property reads as \<^verbatim>\<open>undefined\<close>. An array and a
  string have a \<^verbatim>\<open>length\<close>. The page reads properties only behind a guard that
  excludes \<^verbatim>\<open>null\<close> and \<^verbatim>\<open>undefined\<close>.
\<close>

fun getProp :: "jsval \<Rightarrow> string \<Rightarrow> jsval" where
  "getProp (JObj ps) k = (case map_of ps k of Some v \<Rightarrow> v | None \<Rightarrow> JUndefined)"
| "getProp (JArr xs) k = (if k = ''length'' then JNum (real (length xs)) else JUndefined)"
| "getProp (JStr s) k = (if k = ''length'' then JNum (real (length s)) else JUndefined)"
| "getProp v k = JUndefined"

text \<open>
  \<^verbatim>\<open>String.prototype.toUpperCase\<close> on the ASCII letters; every other character is
  left as it is. (The special casings of Unicode are outside this model; no theorem
  below depends on how a character is mapped, only on the upper-cased string.)
\<close>

definition toUpperChar :: "char \<Rightarrow> char" where
  "toUpperChar c =
     (let n = (of_char c :: nat) in if 97 \<le> n \<and> n \<le> 122 then char_of (n - 32) else c)"

definition toUpperCase :: "string \<Rightarrow> string" where
  "toUpperCase s = map toUpperChar s"

section \<open>The business action classifier\<close>

text \<open>The object \<^verbatim>\<open>{ actionCode, uiMessage, uiColor }\<close> that the classifier returns.\<close>

record business_action =
  actionCode :: string
  uiMessage :: string
  uiColor :: string

text \<open>
  Line 51: \<^verbatim>\<open>const upperLabel = label ? label.toUpperCase() : ''\<close>. A falsy label gives
  the empty string. A truthy string is upper-cased. Any other truthy value has no
  callable \<^verbatim>\<open>toUpperCase\<close>, and the call throws a \<^verbatim>\<open>TypeError\<close>.
\<close>

definition upperLabel :: "jsval \<Rightarrow> js_error + string" where
  "upperLabel label =
     (if truthy label then
        (case label of
           JStr s \<Rightarrow> Inr (toUpperCase s)
         | _ \<Rightarrow> Inl (TypeError ''label.toUpperCase is not a function''))
      else Inr [])"

text \<open>
  Lines 50 and 53 to 57: the local variable \<^verbatim>\<open>normalizedScore\<close>, from the confidence
  and the upper-cased label. It starts at the neutral 0.5 and is overwritten in the two
  branches.
\<close>

definition normalizedScore :: "real \<Rightarrow> string \<Rightarrow> real" where
  "normalizedScore confidence upper =
     (if upper = ''POSITIVE'' then confidence
      else if upper = ''NEGATIVE'' then 1 - confidence
      else 5 / 10)"

text \<open>
  Lines 48 to 79. The thresholds are tested in the order of the source; the first that
  holds decides.
\<close>

definition determineBusinessAction :: "real \<Rightarrow> jsval \<Rightarrow> js_error + business_action" where
  "determineBusinessAction confidence label =
     (case upperLabel label of
        Inl e \<Rightarrow> Inl e
      | Inr upper \<Rightarrow>
          (let score = normalizedScore confidence upper in
           if score \<le> 4 / 10 then
             Inr \<lparr> actionCode = ''OFFER_COUPON'',
                   uiMessage = [CHR 0xF0, CHR 0x9F, CHR 0x9A, CHR 0xA8] @
                     '' We are truly sorry. Please accept this 50% discount coupon.'',
                   uiColor = ''#ef4444'' \<rparr>
           else if score < 7 / 10 then
             Inr \<lparr> actionCode = ''REQUEST_FEEDBACK'',
                   uiMessage = [CHR 0xF0, CHR 0x9F, CHR 0x93, CHR 0x9D] @
                     '' Thank you! Could you tell us how we can improve?'',
                   uiColor = ''#6b7280'' \<rparr>
           else
             Inr \<lparr> actionCode = ''ASK_REFERRAL'',
                   uiMessage = [CHR 0xE2, CHR 0xAD, CHR 0x90] @
                     '' Glad you liked it! Refer a friend and earn rewards.'',
                   uiColor = ''#3b82f6'' \<rparr>))"

section \<open>Rendering a classification\<close>

text \<open>
  What the page borrows from the browser when it renders and logs a result. These are
  library calls and ambient values, taken as parameters:
  \<^item> \<open>toFixed1 x\<close> is \<^verbatim>\<open>x.toFixed(1)\<close>;
  \<^item> \<open>reviewTextContent\<close> is \<^verbatim>\<open>reviewText.textContent\<close>;
  \<^item> \<open>metaJson\<close> is \<^verbatim>\<open>JSON.stringify(meta)\<close>, the serialised user agent, platform,
    language, screen size and time stamp;
  \<^item> \<open>fetch\<close> is the network: what a request meets.
  The elements that the page looks up by id are taken to exist.
\<close>

record request =
  url :: string
  httpMethod :: string
  body :: "(string \<times> string) list"

text \<open>
  The two ways \<^verbatim>\<open>await fetch(...)\<close> can end: a response, with its \<^verbatim>\<open>ok\<close> flag and
  its \<^verbatim>\<open>statusText\<close>, or a rejection with an error value (here its description).
\<close>

datatype fetch_outcome =
    Response bool string
  | Rejected string

record browser =
  toFixed1 :: "real \<Rightarrow> string"
  reviewTextContent :: string
  metaJson :: string
  fetch :: "request \<Rightarrow> fetch_outcome"

datatype console_entry =
    ConsoleWarn "string list"
  | ConsoleError "string list"
  | ConsoleLog "string list"

definition GAS_WEB_APP_URL :: string where
  "GAS_WEB_APP_URL =
     ''https://script.google.com/macros/s/AKfycbxt0k1VUS7bqy0HMJtNttYh3YvUwMGCHKOhnTR6XTiG45LCjz7bjXRc-en7ixZDtS_MMg/exec''"

text \<open>
  Lines 208 to 226. The function is \<^verbatim>\<open>async\<close>: its result is how the promise it
  returns settles (\<open>Inr ()\<close> fulfilled, \<open>Inl e\<close> rejected with \<open>e\<close>), together with what
  it wrote to the console. The fourth argument is the metadata already serialised.
\<close>

definition logToGoogleSheets ::
  "(request \<Rightarrow> fetch_outcome) \<Rightarrow> string \<Rightarrow> string \<Rightarrow> string \<Rightarrow> string
     \<Rightarrow> (js_error + unit) \<times> console_entry list" where
  "logToGoogleSheets net review sentimentStr code meta =
     (let formData =
            [(''review'', review), (''sentiment'', sentimentStr),
             (''action'', code), (''meta'', meta)]
      in case net \<lparr> url = GAS_WEB_APP_URL, httpMethod = ''POST'', body = formData \<rparr> of
           Response ok statusText \<Rightarrow>
             if \<not> ok
             then (Inr (), [ConsoleWarn [''Failed to log to Google Sheets:'', statusText]])
             else (Inr (), [])
         | Rejected err \<Rightarrow>
             (Inr (), [ConsoleWarn [''Error logging to Google Sheets:'', err]]))"

text \<open>Lines 300 to 309.\<close>

definition getSentimentIcon :: "string \<Rightarrow> string" where
  "getSentimentIcon sentiment =
     (if sentiment = ''positive'' then ''fa-thumbs-up''
      else if sentiment = ''negative'' then ''fa-thumbs-down''
      else ''fa-question-circle'')"

text \<open>
  Lines 236 to 242: \<^verbatim>\<open>result[0][0]\<close>, when \<^verbatim>\<open>result\<close> is a non-empty array whose first
  element is a non-empty array.
\<close>

definition sentimentData :: "jsval \<Rightarrow> jsval option" where
  "sentimentData result =
     (case result of
        JArr (JArr (d # ds) # rs) \<Rightarrow> Some d
      | _ \<Rightarrow> None)"

text \<open>
  Lines 230 to 263 of \<^verbatim>\<open>displaySentiment\<close>: the three local variables \<^verbatim>\<open>sentiment\<close>,
  \<^verbatim>\<open>score\<close> and \<^verbatim>\<open>label\<close> as they stand when the result has been read.
\<close>

record reading =
  rd_sentiment :: string
  rd_score :: real
  rd_label :: string

definition readSentiment :: "jsval \<Rightarrow> reading" where
  "readSentiment result =
     (let dflt = \<lparr> rd_sentiment = ''neutral'', rd_score = 5 / 10, rd_label = ''NEUTRAL'' \<rparr>
      in case sentimentData result of
           None \<Rightarrow> dflt
         | Some d \<Rightarrow>
             if truthy d \<and> typeof d = ''object'' then
               (let lab = (case getProp d ''label'' of
                             JStr s \<Rightarrow> toUpperCase s
                           | _ \<Rightarrow> ''NEUTRAL'');
                    sc = (case getProp d ''score'' of
                            JNum x \<Rightarrow> x
                          | _ \<Rightarrow> 5 / 10)
                in \<lparr> rd_sentiment =
                       (if lab = ''POSITIVE'' \<and> sc > 5 / 10 then ''positive''
                        else if lab = ''NEGATIVE'' \<and> sc > 5 / 10 then ''negative''
                        else ''neutral''),
                     rd_score = sc,
                     rd_label = lab \<rparr>)
             else dflt)"

text \<open>
  What \<^verbatim>\<open>displaySentiment\<close> leaves behind: the class and the two parts of the markup
  written to the sentiment element, the text and the style of the action element, the
  decision it took, and the console once the log call has settled.
\<close>

record rendering =
  sentimentClass :: string
  sentimentIcon :: string
  sentimentText :: string
  actionText :: string
  actionBackground :: string
  actionColor :: string
  actionBorder :: string
  actionShown :: bool

record displayed =
  shown :: rendering
  decision :: business_action
  console :: "console_entry list"

text \<open>
  Lines 229 to 297. An exception of the classifier would leave the function before
  anything of the action element is written. The promise of \<^verbatim>\<open>logToGoogleSheets\<close> is
  dropped (the call is not awaited), so only its console output is kept.
\<close>

definition displaySentiment :: "browser \<Rightarrow> jsval \<Rightarrow> js_error + displayed" where
  "displaySentiment b result =
     (let r = readSentiment result;
          sentimentStr = rd_label r @ '' ('' @ toFixed1 b (rd_score r * 100) @ ''%)''
      in case determineBusinessAction (rd_score r) (JStr (rd_label r)) of
           Inl e \<Rightarrow> Inl e
         | Inr d \<Rightarrow>
             Inr \<lparr> shown =
                     \<lparr> sentimentClass = rd_sentiment r,
                       sentimentIcon = getSentimentIcon (rd_sentiment r),
                       sentimentText = sentimentStr,
                       actionText = uiMessage d,
                       actionBackground = uiColor d @ ''20'',
                       actionColor = uiColor d,
                       actionBorder = ''2px solid '' @ uiColor d,
                       actionShown = True \<rparr>,
                   decision = d,
                   console =
                     snd (logToGoogleSheets (fetch b) (reviewTextContent b) sentimentStr
                            (actionCode d) (metaJson b)) \<rparr>)"

section \<open>The order of the tiers\<close>

text \<open>
  The specification orders the three actions: \<^verbatim>\<open>OFFER_COUPON\<close> below
  \<^verbatim>\<open>REQUEST_FEEDBACK\<close> below \<^verbatim>\<open>ASK_REFERRAL\<close>. The source has no such order; this
  definition follows the specification's words and serves to state monotonicity.
\<close>

definition tier :: "string \<Rightarrow> nat option" where
  "tier code =
     (if code = ''OFFER_COUPON'' then Some 0
      else if code = ''REQUEST_FEEDBACK'' then Some 1
      else if code = ''ASK_REFERRAL'' then Some 2
      else None)"

section \<open>Console entries\<close>

text \<open>An entry written by \<^verbatim>\<open>console.warn\<close>.\<close>

definition isWarn :: "console_entry \<Rightarrow> bool" where
  "isWarn e = (case e of ConsoleWarn args \<Rightarrow> True | _ \<Rightarrow> False)"

section \<open>The three answers\<close>

text \<open>
  The three object literals of \<^verbatim>\<open>determineBusinessAction\<close>, lines 61 to 65, 67 to 71
  and 73 to 77, named for the statements below.
\<close>

abbreviation offerCoupon :: business_action where
  "offerCoupon \<equiv>
     \<lparr> actionCode = ''OFFER_COUPON'',
       uiMessage = [CHR 0xF0, CHR 0x9F, CHR 0x9A, CHR 0xA8] @
         '' We are truly sorry. Please accept this 50% discount coupon.'',
       uiColor = ''#ef4444'' \<rparr>"

abbreviation requestFeedback :: business_action where
  "requestFeedback \<equiv>
     \<lparr> actionCode = ''REQUEST_FEEDBACK'',
       uiMessage = [CHR 0xF0, CHR 0x9F, CHR 0x93, CHR 0x9D] @
         '' Thank you! Could you tell us how we can improve?'',
       uiColor = ''#6b7280'' \<rparr>"

abbreviation askReferral :: business_action where
  "askReferral \<equiv>
     \<lparr> actionCode = ''ASK_REFERRAL'',
       uiMessage = [CHR 0xE2, CHR 0xAD, CHR 0x90] @
         '' Glad you liked it! Refer a friend and earn rewards.'',
       uiColor = ''#3b82f6'' \<rparr>"

section \<open>Upper-casing and the label\<close>


lemma toUpperCase_POSITIVE: "toUpperCase ''POSITIVE'' = ''POSITIVE''"
  by code_simp

lemma toUpperCase_NEGATIVE: "toUpperCase ''NEGATIVE'' = ''NEGATIVE''"
  by code_simp




text \<open>
  A string, \<^verbatim>\<open>null\<close> and \<^verbatim>\<open>undefined\<close> are the labels the classifier is written
  for; on each of them line 51 yields a string.
\<close>

lemma upperLabel_JStr: "upperLabel (JStr s) = Inr (toUpperCase s)"
  by (simp add: upperLabel_def toUpperCase_def)

lemma upperLabel_JNull: "upperLabel JNull = Inr []"
  by (simp add: upperLabel_def)

lemma upperLabel_JUndefined: "upperLabel JUndefined = Inr []"
  by (simp add: upperLabel_def)

lemma upperLabel_admitted:
  assumes "label = JStr s \<or> label = JNull \<or> label = JUndefined"
  shows "\<exists>upper. upperLabel label = Inr upper"
  using assms by (auto simp: upperLabel_JStr upperLabel_JNull upperLabel_JUndefined)

text \<open>
  Any other truthy label makes line 51 throw: the classifier is partial on values that
  are not labels.
\<close>

lemma classify_not_a_label:
  "determineBusinessAction c (JNum 5) = Inl (TypeError ''label.toUpperCase is not a function'')"
  by (simp add: determineBusinessAction_def upperLabel_def)

section \<open>The threshold policy\<close>




lemma classify_string:
  "determineBusinessAction c (JStr s) =
     Inr (if normalizedScore c (toUpperCase s) \<le> 4 / 10 then offerCoupon
          else if normalizedScore c (toUpperCase s) < 7 / 10 then requestFeedback
          else askReferral)"
  by (simp add: determineBusinessAction_def upperLabel_JStr Let_def)

lemma classify_POSITIVE:
  "determineBusinessAction c (JStr ''POSITIVE'') =
     Inr (if c \<le> 4 / 10 then offerCoupon
          else if c < 7 / 10 then requestFeedback
          else askReferral)"
  by (simp add: classify_string toUpperCase_POSITIVE normalizedScore_def)

lemma classify_NEGATIVE:
  "determineBusinessAction c (JStr ''NEGATIVE'') =
     Inr (if 1 - c \<le> 4 / 10 then offerCoupon
          else if 1 - c < 7 / 10 then requestFeedback
          else askReferral)"
  by (simp add: classify_string toUpperCase_NEGATIVE normalizedScore_def)

lemma classify_half:
  "determineBusinessAction (5 / 10) (JStr s) = Inr requestFeedback"
  by (simp add: classify_string normalizedScore_def)

lemma tier_codes:
  "tier (actionCode offerCoupon) = Some 0"
  "tier (actionCode requestFeedback) = Some 1"
  "tier (actionCode askReferral) = Some 2"
  by (simp_all add: tier_def)







text \<open>
  Claim C4. Monotonicity: with the label \<^verbatim>\<open>POSITIVE\<close>, a confidence that is not
  smaller never gives a lower tier.
\<close>

theorem positive_monotone:
  assumes "c1 \<le> c2"
  shows "\<exists>a1 a2 t1 t2.
           determineBusinessAction c1 (JStr ''POSITIVE'') = Inr a1 \<and>
           determineBusinessAction c2 (JStr ''POSITIVE'') = Inr a2 \<and>
           tier (actionCode a1) = Some t1 \<and> tier (actionCode a2) = Some t2 \<and> t1 \<le> t2"
  using assms by (simp add: classify_POSITIVE tier_def)

theorem positive_monotone_witness:
  "\<exists>a1 a2 t1 t2.
     determineBusinessAction (3 / 10) (JStr ''POSITIVE'') = Inr a1 \<and>
     determineBusinessAction (8 / 10) (JStr ''POSITIVE'') = Inr a2 \<and>
     tier (actionCode a1) = Some t1 \<and> tier (actionCode a2) = Some t2 \<and> t1 \<le> t2"
  using positive_monotone [of "3 / 10" "8 / 10"] by simp

text \<open>
  Claim C5. Totality: for every confidence and every label that is a string, \<^verbatim>\<open>null\<close>
  or absent, the classifier returns a record, never an exception, and its action code
  is one of the three.
\<close>

theorem classifier_total:
  assumes "label = JStr s \<or> label = JNull \<or> label = JUndefined"
  shows "\<exists>a. determineBusinessAction c label = Inr a \<and>
           (actionCode a = ''OFFER_COUPON'' \<or> actionCode a = ''REQUEST_FEEDBACK'' \<or>
            actionCode a = ''ASK_REFERRAL'')"
proof -
  from assms obtain upper where u: "upperLabel label = Inr upper"
    using upperLabel_admitted by blast
  then show ?thesis
    by (simp add: determineBusinessAction_def Let_def)
qed

theorem classifier_total_witness:
  "(\<exists>a. determineBusinessAction (- 1000) (JStr ''anything at all'') = Inr a \<and>
        (actionCode a = ''OFFER_COUPON'' \<or> actionCode a = ''REQUEST_FEEDBACK'' \<or>
         actionCode a = ''ASK_REFERRAL'')) \<and>
   (\<exists>a. determineBusinessAction 1000 JNull = Inr a \<and>
        (actionCode a = ''OFFER_COUPON'' \<or> actionCode a = ''REQUEST_FEEDBACK'' \<or>
         actionCode a = ''ASK_REFERRAL''))"
  using classifier_total [of "JStr ''anything at all''" "''anything at all''" "- 1000"]
        classifier_total [of JNull "[]" 1000]
  by simp

text \<open>
  Claim C6. No clamping: the normalized score of a \<^verbatim>\<open>POSITIVE\<close> label is the
  confidence itself and that of a \<^verbatim>\<open>NEGATIVE\<close> label is one minus the confidence,
  also outside the unit interval. A confidence of 2 is a referral and one of -1 a
  coupon; above 1 and below 0 the two labels give the two extreme answers.
\<close>

theorem no_clamping:
  "upperLabel (JStr ''POSITIVE'') = Inr ''POSITIVE'' \<and>
   upperLabel (JStr ''NEGATIVE'') = Inr ''NEGATIVE'' \<and>
   normalizedScore c ''POSITIVE'' = c \<and>
   normalizedScore c ''NEGATIVE'' = 1 - c \<and>
   determineBusinessAction 2 (JStr ''POSITIVE'') = Inr askReferral \<and>
   determineBusinessAction (- 1) (JStr ''POSITIVE'') = Inr offerCoupon \<and>
   (1 < c \<longrightarrow> determineBusinessAction c (JStr ''POSITIVE'') = Inr askReferral \<and>
              determineBusinessAction c (JStr ''NEGATIVE'') = Inr offerCoupon) \<and>
   (c < 0 \<longrightarrow> determineBusinessAction c (JStr ''POSITIVE'') = Inr offerCoupon \<and>
              determineBusinessAction c (JStr ''NEGATIVE'') = Inr askReferral)"
  by (simp add: classify_POSITIVE classify_NEGATIVE upperLabel_JStr toUpperCase_POSITIVE
        toUpperCase_NEGATIVE normalizedScore_def)

theorem no_clamping_witness:
  "determineBusinessAction 5 (JStr ''POSITIVE'') = Inr askReferral \<and>
   determineBusinessAction 5 (JStr ''NEGATIVE'') = Inr offerCoupon \<and>
   determineBusinessAction (- 5) (JStr ''POSITIVE'') = Inr offerCoupon \<and>
   determineBusinessAction (- 5) (JStr ''NEGATIVE'') = Inr askReferral \<and>
   normalizedScore 5 ''POSITIVE'' = 5 \<and> normalizedScore (- 5) ''NEGATIVE'' = 6"
  using no_clamping [of 5] no_clamping [of "- 5"] by simp

section \<open>Reading the inference result\<close>

lemma displaySentiment_decision:
  assumes "determineBusinessAction (rd_score (readSentiment result))
             (JStr (rd_label (readSentiment result))) = Inr a"
  shows "\<exists>out. displaySentiment b result = Inr out \<and> decision out = a \<and>
           actionText (shown out) = uiMessage a \<and> actionColor (shown out) = uiColor a"
  using assms by (simp add: displaySentiment_def Let_def)

lemma displaySentiment_total:
  "\<exists>out. displaySentiment b result = Inr out"
proof -
  obtain a where "determineBusinessAction (rd_score (readSentiment result))
                    (JStr (rd_label (readSentiment result))) = Inr a"
    by (simp add: classify_string)
  from displaySentiment_decision [OF this] show ?thesis by blast
qed

lemma displaySentiment_fetch:
  assumes "displaySentiment b result = Inr out"
  shows "\<exists>out'. displaySentiment (b\<lparr>fetch := net\<rparr>) result = Inr out' \<and>
           shown out' = shown out \<and> decision out' = decision out"
  using assms by (auto simp add: displaySentiment_def Let_def split: sum.splits)

lemma readSentiment_score:
  assumes "\<forall>d. sentimentData result = Some d \<longrightarrow> typeof (getProp d ''score'') \<noteq> ''number''"
  shows "rd_score (readSentiment result) = 5 / 10"
proof (cases "sentimentData result")
  case None
  then show ?thesis by (simp add: readSentiment_def)
next
  case (Some d)
  with assms have "typeof (getProp d ''score'') \<noteq> ''number''" by simp
  then have "(case getProp d ''score'' of JNum x \<Rightarrow> x | _ \<Rightarrow> 5 / 10) = (5 / 10 :: real)"
    by (cases "getProp d ''score''") simp_all
  with Some show ?thesis by (simp add: readSentiment_def Let_def)
qed

lemma readSentiment_label:
  assumes "\<forall>d. sentimentData result = Some d \<longrightarrow> typeof (getProp d ''label'') \<noteq> ''string''"
  shows "rd_label (readSentiment result) = ''NEUTRAL''"
proof (cases "sentimentData result")
  case None
  then show ?thesis by (simp add: readSentiment_def)
next
  case (Some d)
  with assms have "typeof (getProp d ''label'') \<noteq> ''string''" by simp
  then have "(case getProp d ''label'' of JStr s \<Rightarrow> toUpperCase s | _ \<Rightarrow> ''NEUTRAL'') = ''NEUTRAL''"
    by (cases "getProp d ''label''") simp_all
  with Some show ?thesis by (simp add: readSentiment_def Let_def)
qed

text \<open>
  Claim C7. When the \<^verbatim>\<open>score\<close> of the inference result is not of type number (or the
  result has no first entry to read it from), the confidence handed to the classifier
  is 0.5; when its \<^verbatim>\<open>label\<close> is not a string, the label handed over is
  \<^verbatim>\<open>NEUTRAL\<close>. In both cases the classifier is called on these values, and answers
  \<^verbatim>\<open>REQUEST_FEEDBACK\<close>.
\<close>

theorem nonnumeric_score_absent:
  "((\<forall>d. sentimentData result = Some d \<longrightarrow> typeof (getProp d ''score'') \<noteq> ''number'') \<longrightarrow>
      rd_score (readSentiment result) = 5 / 10 \<and>
      (\<exists>out. displaySentiment b result = Inr out \<and>
         Inr (decision out) =
           determineBusinessAction (5 / 10) (JStr (rd_label (readSentiment result))) \<and>
         decision out = requestFeedback)) \<and>
   ((\<forall>d. sentimentData result = Some d \<longrightarrow> typeof (getProp d ''label'') \<noteq> ''string'') \<longrightarrow>
      rd_label (readSentiment result) = ''NEUTRAL'' \<and>
      (\<exists>out. displaySentiment b result = Inr out \<and>
         Inr (decision out) =
           determineBusinessAction (rd_score (readSentiment result)) (JStr ''NEUTRAL'') \<and>
         decision out = requestFeedback))"
proof (intro conjI impI)
  assume h: "\<forall>d. sentimentData result = Some d \<longrightarrow> typeof (getProp d ''score'') \<noteq> ''number''"
  show s: "rd_score (readSentiment result) = 5 / 10"
    by (rule readSentiment_score [OF h])
  have "determineBusinessAction (rd_score (readSentiment result))
          (JStr (rd_label (readSentiment result))) = Inr requestFeedback"
    by (simp only: s classify_half)
  from displaySentiment_decision [OF this, of b]
  show "\<exists>out. displaySentiment b result = Inr out \<and>
         Inr (decision out) =
           determineBusinessAction (5 / 10) (JStr (rd_label (readSentiment result))) \<and>
         decision out = requestFeedback"
    by (auto simp only: classify_half)
next
  assume h: "\<forall>d. sentimentData result = Some d \<longrightarrow> typeof (getProp d ''label'') \<noteq> ''string''"
  show l: "rd_label (readSentiment result) = ''NEUTRAL''"
    by (rule readSentiment_label [OF h])
  have n: "determineBusinessAction c (JStr ''NEUTRAL'') = Inr requestFeedback" for c
    by (simp add: classify_string normalizedScore_def toUpperCase_def toUpperChar_def)
  have "determineBusinessAction (rd_score (readSentiment result))
          (JStr (rd_label (readSentiment result))) = Inr requestFeedback"
    by (simp only: l n)
  from displaySentiment_decision [OF this, of b]
  show "\<exists>out. displaySentiment b result = Inr out \<and>
         Inr (decision out) =
           determineBusinessAction (rd_score (readSentiment result)) (JStr ''NEUTRAL'') \<and>
         decision out = requestFeedback"
    by (auto simp only: n)
qed

theorem nonnumeric_score_absent_witness:
  "rd_score (readSentiment
      (JArr [JArr [JObj [(''label'', JStr ''positive''), (''score'', JStr ''0.99'')]]])) = 5 / 10 \<and>
   rd_label (readSentiment
      (JArr [JArr [JObj [(''label'', JNum 1), (''score'', JNum (99 / 100))]]])) = ''NEUTRAL'' \<and>
   (\<exists>out. displaySentiment
            \<lparr> toFixed1 = (\<lambda>x. ''50.0''), reviewTextContent = ''fine'', metaJson = ''{}'',
              fetch = (\<lambda>r. Response True ''OK'') \<rparr>
            (JArr [JArr [JObj [(''label'', JStr ''positive''), (''score'', JStr ''0.99'')]]])
          = Inr out \<and> decision out = requestFeedback)"
  using nonnumeric_score_absent
          [of "JArr [JArr [JObj [(''label'', JStr ''positive''), (''score'', JStr ''0.99'')]]]"
              "\<lparr> toFixed1 = (\<lambda>x. ''50.0''), reviewTextContent = ''fine'', metaJson = ''{}'',
                 fetch = (\<lambda>r. Response True ''OK'') \<rparr>"]
        nonnumeric_score_absent
          [of "JArr [JArr [JObj [(''label'', JNum 1), (''score'', JNum (99 / 100))]]]"
              "\<lparr> toFixed1 = (\<lambda>x. ''50.0''), reviewTextContent = ''fine'', metaJson = ''{}'',
                 fetch = (\<lambda>r. Response True ''OK'') \<rparr>"]
  by (auto simp add: sentimentData_def)

section \<open>Determinism\<close>



section \<open>Logging\<close>

text \<open>
  Claim C9. Whatever the request meets, the promise of \<^verbatim>\<open>logToGoogleSheets\<close> is
  fulfilled and the console receives at most one entry, a warning: the one for a
  response that is not ok, the one for a rejected request, none for an ok response.
  What \<^verbatim>\<open>displaySentiment\<close> renders and decides is the same for every network.
\<close>

theorem logging_never_propagates:
  "fst (logToGoogleSheets net review str code meta) = Inr () \<and>
   list_all isWarn (snd (logToGoogleSheets net review str code meta)) \<and>
   length (snd (logToGoogleSheets net review str code meta)) \<le> 1 \<and>
   (\<forall>req. req = \<lparr> url = GAS_WEB_APP_URL, httpMethod = ''POST'',
                   body = [(''review'', review), (''sentiment'', str),
                           (''action'', code), (''meta'', meta)] \<rparr> \<longrightarrow>
      (\<forall>st. net req = Response False st \<longrightarrow>
         snd (logToGoogleSheets net review str code meta) =
           [ConsoleWarn [''Failed to log to Google Sheets:'', st]]) \<and>
      (\<forall>err. net req = Rejected err \<longrightarrow>
         snd (logToGoogleSheets net review str code meta) =
           [ConsoleWarn [''Error logging to Google Sheets:'', err]]) \<and>
      (\<forall>st. net req = Response True st \<longrightarrow>
         snd (logToGoogleSheets net review str code meta) = [])) \<and>
   (\<exists>out out'. displaySentiment b result = Inr out \<and>
      displaySentiment (b\<lparr>fetch := net\<rparr>) result = Inr out' \<and>
      shown out' = shown out \<and> decision out' = decision out)"
proof -
  have 1: "fst (logToGoogleSheets net review str code meta) = Inr ()"
    by (simp add: logToGoogleSheets_def Let_def split: fetch_outcome.splits)
  have 2: "list_all isWarn (snd (logToGoogleSheets net review str code meta))"
    by (simp add: logToGoogleSheets_def Let_def isWarn_def split: fetch_outcome.splits)
  have 3: "length (snd (logToGoogleSheets net review str code meta)) \<le> 1"
    by (simp add: logToGoogleSheets_def Let_def split: fetch_outcome.splits)
  have 4: "\<forall>req. req = \<lparr> url = GAS_WEB_APP_URL, httpMethod = ''POST'',
                   body = [(''review'', review), (''sentiment'', str),
                           (''action'', code), (''meta'', meta)] \<rparr> \<longrightarrow>
      (\<forall>st. net req = Response False st \<longrightarrow>
         snd (logToGoogleSheets net review str code meta) =
           [ConsoleWarn [''Failed to log to Google Sheets:'', st]]) \<and>
      (\<forall>err. net req = Rejected err \<longrightarrow>
         snd (logToGoogleSheets net review str code meta) =
           [ConsoleWarn [''Error logging to Google Sheets:'', err]]) \<and>
      (\<forall>st. net req = Response True st \<longrightarrow>
         snd (logToGoogleSheets net review str code meta) = [])"
    by (simp add: logToGoogleSheets_def Let_def)
  obtain out where o: "displaySentiment b result = Inr out"
    using displaySentiment_total by blast
  from displaySentiment_fetch [OF o, of net] o
  have 5: "\<exists>out out'. displaySentiment b result = Inr out \<and>
      displaySentiment (b\<lparr>fetch := net\<rparr>) result = Inr out' \<and>
      shown out' = shown out \<and> decision out' = decision out"
    by blast
  from 1 2 3 4 5 show ?thesis by blast
qed

theorem logging_never_propagates_witness:
  "logToGoogleSheets (\<lambda>r. Rejected ''offline'') ''fine'' ''POSITIVE (99.0%)'' ''ASK_REFERRAL'' ''{}''
     = (Inr (), [ConsoleWarn [''Error logging to Google Sheets:'', ''offline'']]) \<and>
   logToGoogleSheets (\<lambda>r. Response False ''Forbidden'') ''fine'' ''POSITIVE (99.0%)'' ''ASK_REFERRAL'' ''{}''
     = (Inr (), [ConsoleWarn [''Failed to log to Google Sheets:'', ''Forbidden'']])"
  using logging_never_propagates
          [of "\<lambda>r. Rejected ''offline''" "''fine''" "''POSITIVE (99.0%)''" "''ASK_REFERRAL''" "''{}''"]
        logging_never_propagates
          [of "\<lambda>r. Response False ''Forbidden''" "''fine''" "''POSITIVE (99.0%)''" "''ASK_REFERRAL''" "''{}''"]
  by (simp add: prod_eq_iff)

section \<open>Duality of the two labels\<close>

text \<open>
  Claim C10. A \<^verbatim>\<open>NEGATIVE\<close> label with confidence \<open>c\<close> gets the record of a
  \<^verbatim>\<open>POSITIVE\<close> label with confidence \<open>1 - c\<close>.
\<close>

theorem label_duality:
  "determineBusinessAction c (JStr ''NEGATIVE'') =
   determineBusinessAction (1 - c) (JStr ''POSITIVE'')"
  by (simp add: classify_POSITIVE classify_NEGATIVE)

theorem label_duality_witness:
  "determineBusinessAction (9 / 10) (JStr ''NEGATIVE'') = Inr offerCoupon \<and>
   determineBusinessAction (6 / 10) (JStr ''NEGATIVE'') = Inr offerCoupon \<and>
   determineBusinessAction (3 / 10) (JStr ''NEGATIVE'') = Inr askReferral"
  using label_duality [of "9 / 10"] label_duality [of "6 / 10"] label_duality [of "3 / 10"]
  by (simp add: classify_POSITIVE)

end
